theory Spec2Isabelle
  imports Main
begin

section \<open>Python strings\<close>

text \<open>
  A Python \<open>str\<close> is modelled as a \<open>string\<close>. The character classes below are the ASCII
  part of Python's classes: the model is exact on ASCII text, where one \<open>char\<close> is one code
  point. (Python's \<open>\w\<close>, \<open>str.isspace\<close> and \<open>str.lower\<close> also know non-ASCII letters and
  spaces; they are outside the model.)
\<close>

definition newline :: char where
  "newline = CHR 0x0A"

text \<open>\<open>\w\<close> of the \<open>re\<close> module: letters, digits and the underscore.\<close>

definition is_word :: "char \<Rightarrow> bool" where
  "is_word c = (let n = (of_char c :: nat) in
     (48 \<le> n \<and> n \<le> 57) \<or> (65 \<le> n \<and> n \<le> 90) \<or> n = 95 \<or> (97 \<le> n \<and> n \<le> 122))"

text \<open>\<open>str.isspace\<close>, the class that \<open>str.strip()\<close> removes: tab, line feed, vertical tab,
  form feed, carriage return, the four separators \<open>0x1C\<close> to \<open>0x1F\<close>, and the space.\<close>

definition is_space :: "char \<Rightarrow> bool" where
  "is_space c = (let n = (of_char c :: nat) in (9 \<le> n \<and> n \<le> 13) \<or> (28 \<le> n \<and> n \<le> 32))"

definition is_upper :: "char \<Rightarrow> bool" where
  "is_upper c = (let n = (of_char c :: nat) in 65 \<le> n \<and> n \<le> 90)"

definition lower_char :: "char \<Rightarrow> char" where
  "lower_char c = (if is_upper c then char_of ((of_char c :: nat) + 32) else c)"

text \<open>\<open>s.lower()\<close>\<close>

definition lower :: "string \<Rightarrow> string" where
  "lower s = map lower_char s"

text \<open>\<open>s.strip()\<close>\<close>

definition strip :: "string \<Rightarrow> string" where
  "strip s = rev (dropWhile is_space (rev (dropWhile is_space s)))"

text \<open>\<open>s.replace(" ", "_")\<close>\<close>

definition replace_space :: "string \<Rightarrow> string" where
  "replace_space s = map (\<lambda>c. if c = CHR '' '' then CHR ''_'' else c) s"

text \<open>\<open>re.sub(r'[!\[\]\(\)]', '', s)\<close>: every character of the class is deleted.\<close>

definition slug_punct :: "char \<Rightarrow> bool" where
  "slug_punct c = (c \<in> set ''![]()'')"

definition sub_punct :: "string \<Rightarrow> string" where
  "sub_punct s = filter (\<lambda>c. \<not> slug_punct c) s"

text \<open>\<open>s.split(sep)\<close> for a separator of two characters \<open>a\<close>, \<open>b\<close> (the source only splits on
  \<open>", "\<close> and \<open>": "\<close>): the occurrences are found from the left and do not overlap; \<open>acc\<close> is the
  piece being read, reversed.\<close>

fun split2 :: "char \<Rightarrow> char \<Rightarrow> string \<Rightarrow> string \<Rightarrow> string list" where
  "split2 a b acc (x # y # s) =
     (if x = a \<and> y = b then rev acc # split2 a b [] s else split2 a b (x # acc) (y # s))"
| "split2 a b acc [x] = [rev (x # acc)]"
| "split2 a b acc [] = [rev acc]"

definition split_comma :: "string \<Rightarrow> string list" where
  "split_comma s = split2 (CHR '','') (CHR '' '') [] s"

text \<open>\<open>s.split(": ", maxsplit=1)\<close>: one piece when \<open>": "\<close> does not occur, otherwise the text
  before its first occurrence and the text after it.\<close>

fun split_colon1_aux :: "string \<Rightarrow> string \<Rightarrow> string list" where
  "split_colon1_aux acc (x # y # s) =
     (if x = CHR '':'' \<and> y = CHR '' '' then [rev acc, s] else split_colon1_aux (x # acc) (y # s))"
| "split_colon1_aux acc [x] = [rev (x # acc)]"
| "split_colon1_aux acc [] = [rev acc]"

definition split_colon1 :: "string \<Rightarrow> string list" where
  "split_colon1 s = split_colon1_aux [] s"

text \<open>\<open>x in s\<close> for two strings: \<open>x\<close> occurs in \<open>s\<close> as a substring.\<close>

fun substring :: "string \<Rightarrow> string \<Rightarrow> bool" where
  "substring x [] = (x = [])"
| "substring x (c # cs) = (take (length x) (c # cs) = x \<or> substring x cs)"

section \<open>Errors\<close>

datatype error =
    AttributeError
  | ValueError
  | TypeError
  | IndexError
  | KeyError
  | OSError
  | ExternalError

section \<open>The attribute parser of \<open>render_engine/page.py\<close>\<close>

text \<open>
  \<open>base_matcher = re.compile(r"(^\w+: \b.+$)", flags=re.M)\<close>.

  \<open>base_matcher prev s\<close> tries the pattern at one position of the text: \<open>prev\<close> is the character
  before the position (\<open>None\<close> at the start of the text) and \<open>s\<close> the text from the position on.
  It returns the matched text and the text after it.
  \<^item> \<open>^\<close> with \<open>re.M\<close>: the position is the start of the text or follows a line feed;
  \<^item> \<open>\w+\<close>: the longest run of word characters, not empty (a shorter run would be followed
    by a word character, not by \<open>:\<close>);
  \<^item> \<open>: \<close>: the two characters;
  \<^item> \<open>\b\<close>: the character before is the space, so the next character exists and is a word
    character;
  \<^item> \<open>.+$\<close>: \<open>.\<close> is any character but the line feed, and \<open>$\<close> with \<open>re.M\<close> holds at the end
    of the text or before a line feed: the match runs to the end of the line.
\<close>

definition base_matcher :: "char option \<Rightarrow> string \<Rightarrow> (string \<times> string) option" where
  "base_matcher prev s =
     (if prev = None \<or> prev = Some newline then
        (let key = takeWhile is_word s in
         if key = [] then None
         else (case dropWhile is_word s of
                 c1 # c2 # c3 # r \<Rightarrow>
                   if c1 = CHR '':'' \<and> c2 = CHR '' '' \<and> is_word c3
                   then Some (key @ [c1, c2] @ takeWhile (\<lambda>c. c \<noteq> newline) (c3 # r),
                              dropWhile (\<lambda>c. c \<noteq> newline) (c3 # r))
                   else None
               | _ \<Rightarrow> None))
      else None)"

lemma base_matcher_shorter:
  assumes "base_matcher prev s = Some (m, rest)"
  shows "length rest < length s"
proof -
  have len: "length (dropWhile P xs) \<le> length xs" for P and xs :: string
    by (induction xs) auto
  from assms obtain c1 c2 c3 r where
    d: "dropWhile is_word s = c1 # c2 # c3 # r" and
    rest: "rest = dropWhile (\<lambda>c. c \<noteq> newline) (c3 # r)"
    by (auto simp: base_matcher_def Let_def split: if_splits list.splits)
  have "length rest \<le> length (c3 # r)"
    unfolding rest by (rule len)
  also have "\<dots> < length (dropWhile is_word s)"
    by (simp add: d)
  also have "\<dots> \<le> length s"
    by (rule len)
  finally show ?thesis .
qed

text \<open>
  \<open>re.split(matcher, content)\<close> with one capturing group: the text is searched from the
  left; each match closes the piece read so far (\<open>acc\<close>, reversed), the captured text follows
  it in the result, and the search goes on after the match. The text after the last match is
  the last piece.
\<close>

function re_split :: "char option \<Rightarrow> string \<Rightarrow> string \<Rightarrow> string list" where
  "re_split prev acc [] = [rev acc]"
| "re_split prev acc (c # cs) =
     (case base_matcher prev (c # cs) of
        Some (m, rest) \<Rightarrow> rev acc # m # re_split (Some (last m)) [] rest
      | None \<Rightarrow> re_split (Some c) (c # acc) cs)"
  by pat_completeness auto
termination
  by (relation "measure (\<lambda>(prev, acc, s). length s)")
     (auto dest: base_matcher_shorter)

text \<open>
  \<open>parse_content(content, matcher=base_matcher)\<close>: \<open>parsed_content.pop()\<close> raises IndexError on
  an empty list; the filter keeps the pieces whose \<open>strip()\<close> is not empty, unchanged.
\<close>

definition parse_content :: "string \<Rightarrow> error + (string list \<times> string)" where
  "parse_content content =
     (let parsed_content = re_split None [] content in
      if parsed_content = [] then Inl IndexError
      else Inr (filter (\<lambda>x. strip x \<noteq> []) (butlast parsed_content),
                strip (last parsed_content)))"

text \<open>\<open>nomatch prev s\<close>: the pattern matches at no position of \<open>s\<close>, where \<open>prev\<close> is the
  character before \<open>s\<close>.\<close>

fun nomatch :: "char option \<Rightarrow> string \<Rightarrow> bool" where
  "nomatch prev [] = True"
| "nomatch prev (c # cs) = (base_matcher prev (c # cs) = None \<and> nomatch (Some c) cs)"

section \<open>Python values and objects\<close>

text \<open>
  The values a page attribute holds: a string, a list of strings, a bool, \<open>None\<close>, a dict with
  string keys, or an object of an external library (the template engine), which the model
  only passes on.
\<close>

datatype pyval =
    Str string
  | StrList "string list"
  | PyBool bool
  | PyNone
  | PyDict "(string \<times> pyval) list"
  | Opaque nat

text \<open>Truth value of an object, as \<open>if x\<close>, \<open>x or y\<close> and \<open>x and y\<close> test it.\<close>

fun truthy :: "pyval \<Rightarrow> bool" where
  "truthy (Str s) = (s \<noteq> [])"
| "truthy (StrList xs) = (xs \<noteq> [])"
| "truthy (PyBool b) = b"
| "truthy PyNone = False"
| "truthy (PyDict kvs) = (kvs \<noteq> [])"
| "truthy (Opaque n) = True"

definition py_or :: "pyval \<Rightarrow> pyval \<Rightarrow> pyval" where
  "py_or a b = (if truthy a then a else b)"

text \<open>\<open>name in xs\<close>: membership in a list, substring of a string, key of a dict; TypeError
  for a value that is not a container.\<close>

fun py_in :: "string \<Rightarrow> pyval \<Rightarrow> error + bool" where
  "py_in x (Str s) = Inr (substring x s)"
| "py_in x (StrList xs) = Inr (x \<in> set xs)"
| "py_in x (PyDict kvs) = Inr (x \<in> set (map fst kvs))"
| "py_in x v = Inl TypeError"

text \<open>
  A class is its name and the data attributes that it and its bases define; an object is
  its class and its instance \<open>__dict__\<close>. The properties of the two \<open>Page\<close> classes are
  functions of the model, and a subclass is taken not to replace them.
\<close>

record pyclass =
  class_name :: string
  class_attrs :: "string \<rightharpoonup> pyval"

record pyobject =
  cls :: pyclass
  dict :: "string \<rightharpoonup> pyval"

text \<open>\<open>getattr(self, name)\<close> on a data attribute: the instance first, then the class;
  \<open>None\<close> stands for AttributeError.\<close>

definition getattr :: "pyobject \<Rightarrow> string \<Rightarrow> pyval option" where
  "getattr self name =
     (case dict self name of Some v \<Rightarrow> Some v | None \<Rightarrow> class_attrs (cls self) name)"

definition hasattr :: "pyobject \<Rightarrow> string \<Rightarrow> bool" where
  "hasattr self name = (getattr self name \<noteq> None)"

text \<open>\<open>getattr(self, name, default)\<close>\<close>

definition getattr_default :: "pyobject \<Rightarrow> string \<Rightarrow> pyval \<Rightarrow> pyval" where
  "getattr_default self name d = (case getattr self name of Some v \<Rightarrow> v | None \<Rightarrow> d)"

section \<open>\<open>Page\<close> of \<open>render_engine/page.py\<close>\<close>

text \<open>The class attributes of \<open>Page\<close>; a subclass adds its own (\<open>title\<close>, \<open>name\<close>,
  \<open>content_path\<close>, ...) or replaces these.\<close>

definition legacy_Page :: pyclass where
  "legacy_Page =
     \<lparr>class_name = ''Page'',
      class_attrs = [''engine'' \<mapsto> Str [], ''template'' \<mapsto> Str [],
                     ''routes'' \<mapsto> StrList [[]], ''list_attrs'' \<mapsto> StrList [''tags'']]\<rparr>"

text \<open>\<open>setattr(self, name, value)\<close>: \<open>content\<close> and \<open>html\<close> are properties without a setter,
  and assigning to them raises AttributeError.\<close>

definition legacy_setattr :: "pyobject \<Rightarrow> string \<Rightarrow> pyval \<Rightarrow> error + pyobject" where
  "legacy_setattr self name v =
     (if name = ''content'' \<or> name = ''html'' then Inl AttributeError
      else Inr (self\<lparr>dict := (dict self)(name \<mapsto> v)\<rparr>))"

text \<open>
  The body of the loop \<open>for attr in valid_attrs\<close>: unpacking \<open>name, value\<close> raises ValueError
  when \<open>": "\<close> does not occur in \<open>attr\<close>.
\<close>

definition legacy_set_attr :: "pyobject \<Rightarrow> string \<Rightarrow> error + pyobject" where
  "legacy_set_attr self attr =
     (case split_colon1 attr of
        [name, value] \<Rightarrow>
          (case getattr self ''list_attrs'' of
             None \<Rightarrow> Inl AttributeError
           | Some list_attrs \<Rightarrow>
               (case py_in (lower name) list_attrs of
                  Inl e \<Rightarrow> Inl e
                | Inr is_list \<Rightarrow>
                    legacy_setattr self (lower name)
                      (if is_list then StrList (map lower (split_comma value))
                       else Str (strip value))))
      | _ \<Rightarrow> Inl ValueError)"

fun legacy_set_attrs :: "pyobject \<Rightarrow> string list \<Rightarrow> error + pyobject" where
  "legacy_set_attrs self [] = Inr self"
| "legacy_set_attrs self (attr # attrs) =
     (case legacy_set_attr self attr of
        Inl e \<Rightarrow> Inl e
      | Inr self' \<Rightarrow> legacy_set_attrs self' attrs)"

text \<open>\<open>Path(p).read_text()\<close> on a file system \<open>fs\<close> that maps the paths of the readable
  files to their text.\<close>

definition read_text :: "(string \<rightharpoonup> string) \<Rightarrow> string \<Rightarrow> error + string" where
  "read_text fs p = (case fs p of None \<Rightarrow> Inl OSError | Some t \<Rightarrow> Inr t)"

text \<open>The text the constructor parses: the file of the class's \<open>content_path\<close>, else the
  file of the argument \<open>content_path\<close>, else the argument \<open>content\<close>.\<close>

definition legacy_source ::
  "pyobject \<Rightarrow> (string \<rightharpoonup> string) \<Rightarrow> string option \<Rightarrow> string \<Rightarrow> error + string" where
  "legacy_source self fs content_path content =
     (case getattr self ''content_path'' of
        Some (Str p) \<Rightarrow> read_text fs p
      | Some _ \<Rightarrow> Inl TypeError
      | None \<Rightarrow>
          (case content_path of
             None \<Rightarrow> Inr content
           | Some p \<Rightarrow> if p \<noteq> [] then read_text fs p else Inr content))"

text \<open>\<open>self.routes[0]\<close>: the first item of a list, the first character of a string; a
  dict with string keys has no key \<open>0\<close>.\<close>

fun first_item :: "pyval \<Rightarrow> error + string" where
  "first_item (StrList (r # rs)) = Inr r"
| "first_item (StrList []) = Inl IndexError"
| "first_item (Str (c # cs)) = Inr [c]"
| "first_item (Str []) = Inl IndexError"
| "first_item (PyDict kvs) = Inl KeyError"
| "first_item v = Inl TypeError"

text \<open>
  The end of the constructor, from \<open>if not hasattr(self, 'title')\<close> on. A slug that is not a
  string has no \<open>lower\<close> (AttributeError). The \<open>logging.debug\<close> line, which formats the title
  and the markdown conversion of the body, changes nothing and is left out.
\<close>

definition legacy_title_default :: "pyobject \<Rightarrow> pyval" where
  "legacy_title_default self =
     (let name = getattr_default self ''name'' PyNone in
      if truthy name then name else Str (class_name (cls self)))"

definition legacy_finish :: "pyobject \<Rightarrow> error + pyobject" where
  "legacy_finish self0 =
     (let self1 = (if hasattr self0 ''title'' then self0
                   else self0\<lparr>dict := (dict self0)(''title'' \<mapsto> legacy_title_default self0)\<rparr>);
          self2 = (if hasattr self1 ''slug'' then self1
                   else self1\<lparr>dict := (dict self1)
                          (''slug'' \<mapsto> getattr_default self1 ''title'' (Str (class_name (cls self1))))\<rparr>)
      in case getattr self2 ''slug'' of
           Some (Str s) \<Rightarrow>
             (let slug = sub_punct (replace_space (lower s));
                  self3 = self2\<lparr>dict := (dict self2)(''slug'' \<mapsto> Str slug)\<rparr>
              in case getattr self3 ''routes'' of
                   None \<Rightarrow> Inl AttributeError
                 | Some routes \<Rightarrow>
                     (case first_item routes of
                        Inl e \<Rightarrow> Inl e
                      | Inr route \<Rightarrow>
                          Inr (self3\<lparr>dict := (dict self3)(''url'' \<mapsto> Str (route @ ''/'' @ slug))\<rparr>)))
         | _ \<Rightarrow> Inl AttributeError)"

text \<open>\<open>Page.__init__(self, content_path, content, matcher, no_index)\<close> with the default
  matcher, on an object of class \<open>c\<close>.\<close>

definition legacy_init ::
  "pyclass \<Rightarrow> (string \<rightharpoonup> string) \<Rightarrow> string option \<Rightarrow> string \<Rightarrow> bool \<Rightarrow> error + pyobject" where
  "legacy_init c fs content_path content no_index =
     (let self = \<lparr>cls = c, dict = [''no_index'' \<mapsto> PyBool no_index]\<rparr> in
      case legacy_source self fs content_path content of
        Inl e \<Rightarrow> Inl e
      | Inr text \<Rightarrow>
          (case parse_content text of
             Inl e \<Rightarrow> Inl e
           | Inr (valid_attrs, body) \<Rightarrow>
               (case legacy_set_attrs (self\<lparr>dict := (dict self)(''_content'' \<mapsto> Str body)\<rparr>)
                       valid_attrs of
                  Inl e \<Rightarrow> Inl e
                | Inr self' \<Rightarrow> legacy_finish self')))"

section \<open>\<open>Page\<close> of \<open>src/render_engine/page.py\<close>\<close>

text \<open>
  The page parser (\<open>Parser\<close>, by default \<open>BasePageParser\<close> of \<open>parsers/base_parsers.py\<close>), the
  \<open>slugify\<close> function of the \<open>slugify\<close> package and the template engine are not part of the
  module: they are parameters of the model, and each of them may raise.
  \<^item> \<open>parse_content_path\<close> reads the content of a path;
  \<^item> \<open>parser_parse_content\<close> splits a content into its attributes, in the order of the dict, and
    its body;
  \<^item> \<open>parser_markup\<close> converts the content of a page;
  \<^item> \<open>slugify\<close> maps a value to its slug;
  \<^item> \<open>get_template engine name\<close> is \<open>engine.get_template(name)\<close>, a template, and
    \<open>render t context\<close> is \<open>t.render(**context)\<close>.
\<close>

record parser =
  parse_content_path :: "pyval \<Rightarrow> error + pyval"
  parser_parse_content :: "pyval \<Rightarrow> error + ((string \<times> pyval) list \<times> string)"
  parser_markup :: "pyobject \<Rightarrow> pyval \<Rightarrow> error + string"

type_synonym slugify = "pyval \<Rightarrow> error + string"

record template_engine =
  get_template :: "pyval \<Rightarrow> pyval \<Rightarrow> error + nat"
  render :: "nat \<Rightarrow> (string \<rightharpoonup> pyval) \<Rightarrow> error + string"

text \<open>The class attributes of \<open>Page\<close> that have a value (\<open>content\<close>, \<open>content_path\<close>, \<open>engine\<close> and
  \<open>template\<close> are only annotated).\<close>

definition Page :: pyclass where
  "Page =
     \<lparr>class_name = ''Page'',
      class_attrs = [''extension'' \<mapsto> Str ''.html'', ''reference'' \<mapsto> Str ''slug'',
                     ''routes'' \<mapsto> StrList [''./''], ''invalid_attrs'' \<mapsto> StrList [''slug'']]\<rparr>"

text \<open>
  \<open>setattr(self, name, value)\<close>: \<open>title\<close> and \<open>slug\<close> are properties with a setter (the setter of
  \<open>slug\<close> slugifies); \<open>url\<close>, \<open>_extension\<close>, \<open>to_dict\<close> and \<open>markup\<close> are properties without one,
  and assigning to them raises AttributeError.
\<close>

definition page_setattr :: "slugify \<Rightarrow> pyobject \<Rightarrow> string \<Rightarrow> pyval \<Rightarrow> error + pyobject" where
  "page_setattr slugify self name v =
     (if name = ''title'' then Inr (self\<lparr>dict := (dict self)(''_title'' \<mapsto> v)\<rparr>)
      else if name = ''slug'' then
        (case slugify v of
           Inl e \<Rightarrow> Inl e
         | Inr s \<Rightarrow> Inr (self\<lparr>dict := (dict self)(''_slug'' \<mapsto> Str s)\<rparr>))
      else if name = ''url'' \<or> name = ''_extension'' \<or> name = ''to_dict'' \<or> name = ''markup''
        then Inl AttributeError
      else Inr (self\<lparr>dict := (dict self)(name \<mapsto> v)\<rparr>))"

text \<open>\<open>[attrval.lower() for attrval in value.split(", ")]\<close>: only a string has \<open>split\<close>.\<close>

fun split_list_attr :: "pyval \<Rightarrow> error + pyval" where
  "split_list_attr (Str s) = Inr (StrList (map lower (split_comma s)))"
| "split_list_attr v = Inl AttributeError"

text \<open>The body of the loop \<open>for name, value in attrs.items()\<close>.\<close>

definition page_set_attr ::
  "slugify \<Rightarrow> pyval \<Rightarrow> pyobject \<Rightarrow> string \<times> pyval \<Rightarrow> error + pyobject" where
  "page_set_attr slugify invalid_attrs self attr =
     (let name = lower (fst attr); value = snd attr in
      case py_in name invalid_attrs of
        Inl e \<Rightarrow> Inl e
      | Inr invalid \<Rightarrow>
          (let name = (if invalid then ''_'' @ name else name) in
           case py_in name (getattr_default self ''list_attrs'' (StrList [])) of
             Inl e \<Rightarrow> Inl e
           | Inr is_list \<Rightarrow>
               (if is_list then
                  (case split_list_attr value of
                     Inl e \<Rightarrow> Inl e
                   | Inr value \<Rightarrow> page_setattr slugify self name value)
                else page_setattr slugify self name value)))"

fun page_set_attrs ::
  "slugify \<Rightarrow> pyval \<Rightarrow> pyobject \<Rightarrow> (string \<times> pyval) list \<Rightarrow> error + pyobject" where
  "page_set_attrs slugify invalid_attrs self [] = Inr self"
| "page_set_attrs slugify invalid_attrs self (attr # attrs) =
     (case page_set_attr slugify invalid_attrs self attr of
        Inl e \<Rightarrow> Inl e
      | Inr self' \<Rightarrow> page_set_attrs slugify invalid_attrs self' attrs)"

text \<open>The first statement of the constructor: the content that is parsed.\<close>

definition page_source :: "parser \<Rightarrow> pyobject \<Rightarrow> pyval \<Rightarrow> pyval \<Rightarrow> error + pyval" where
  "page_source P self content content_path =
     (let content_path = py_or content_path (getattr_default self ''content_path'' PyNone) in
      case (if truthy content_path then parse_content_path P content_path else Inr content) of
        Inl e \<Rightarrow> Inl e
      | Inr content \<Rightarrow> Inr (py_or content (getattr_default self ''content'' PyNone)))"

text \<open>\<open>Page.__init__(self, content, content_path)\<close> on an object of class \<open>c\<close>.\<close>

definition page_init ::
  "parser \<Rightarrow> slugify \<Rightarrow> pyclass \<Rightarrow> pyval \<Rightarrow> pyval \<Rightarrow> error + pyobject" where
  "page_init P slugify c content content_path =
     (let self = \<lparr>cls = c, dict = Map.empty\<rparr> in
      case page_source P self content content_path of
        Inl e \<Rightarrow> Inl e
      | Inr content \<Rightarrow>
          (case (if truthy content then
                   (case parser_parse_content P content of
                      Inl e \<Rightarrow> Inl e
                    | Inr (attrs, body) \<Rightarrow>
                        Inr (attrs, self\<lparr>dict := (dict self)(''content'' \<mapsto> Str body)\<rparr>))
                 else Inr ([], self)) of
             Inl e \<Rightarrow> Inl e
           | Inr (attrs, self) \<Rightarrow>
               (case getattr self ''invalid_attrs'' of
                  None \<Rightarrow> Inl AttributeError
                | Some v \<Rightarrow> page_set_attrs slugify (py_or v (StrList [])) self attrs)))"

text \<open>The property \<open>title\<close>.\<close>

definition title :: "pyobject \<Rightarrow> pyval" where
  "title self =
     (case getattr self ''_title'' of
        None \<Rightarrow> Str (class_name (cls self))
      | Some v \<Rightarrow> v)"

text \<open>The property \<open>slug\<close>: reading it stores the title in \<open>_slug\<close> when \<open>_slug\<close> is not set. The
  result is the slug and the object after the read.\<close>

definition slug :: "slugify \<Rightarrow> pyobject \<Rightarrow> error + (string \<times> pyobject)" where
  "slug slugify self =
     (let self' = (if hasattr self ''_slug'' then self
                   else self\<lparr>dict := (dict self)(''_slug'' \<mapsto> title self)\<rparr>)
      in case slugify (getattr_default self' ''_slug'' PyNone) of
           Inl e \<Rightarrow> Inl e
         | Inr s \<Rightarrow> Inr (s, self'))"

text \<open>The property \<open>_extension\<close>: only a string has \<open>startswith\<close>.\<close>

definition underscore_extension :: "pyobject \<Rightarrow> error + string" where
  "underscore_extension self =
     (case getattr self ''extension'' of
        Some (Str e) \<Rightarrow> if take 1 e \<noteq> ''.'' then Inr (''.'' @ e) else Inr e
      | _ \<Rightarrow> Inl AttributeError)"

text \<open>The property \<open>url\<close>: \<open>f"{self.slug}{self._extension}"\<close>.\<close>

definition url :: "slugify \<Rightarrow> pyobject \<Rightarrow> error + (string \<times> pyobject)" where
  "url slugify self =
     (case slug slugify self of
        Inl e \<Rightarrow> Inl e
      | Inr (s, self') \<Rightarrow>
          (case underscore_extension self' of
             Inl e \<Rightarrow> Inl e
           | Inr ext \<Rightarrow> Inr (s @ ext, self')))"

text \<open>The property \<open>markup\<close>: without a \<open>content\<close> attribute the function body ends without a
  \<open>return\<close>, and the result is \<open>None\<close>.\<close>

definition markup :: "parser \<Rightarrow> pyobject \<Rightarrow> error + pyval" where
  "markup P self =
     (case getattr self ''content'' of
        None \<Rightarrow> Inr PyNone
      | Some content \<Rightarrow>
          (case parser_markup P self content of
             Inl e \<Rightarrow> Inl e
           | Inr m \<Rightarrow> Inr (Str m)))"

text \<open>\<open>**d\<close> in a dict display: only a dict can be unpacked.\<close>

fun unpack :: "pyval \<Rightarrow> error + (string \<rightharpoonup> pyval)" where
  "unpack (PyDict kvs) = Inr (map_of (rev kvs))"
| "unpack v = Inl TypeError"

text \<open>The property \<open>to_dict\<close>: \<open>vars(self)\<close> is read before \<open>self.slug\<close> stores \<open>_slug\<close>.\<close>

definition to_dict :: "slugify \<Rightarrow> pyobject \<Rightarrow> error + ((string \<rightharpoonup> pyval) \<times> pyobject)" where
  "to_dict slugify self =
     (case unpack (getattr_default self ''template_vars'' (PyDict [])) of
        Inl e \<Rightarrow> Inl e
      | Inr template_vars \<Rightarrow>
          (case slug slugify self of
             Inl e \<Rightarrow> Inl e
           | Inr (s, self') \<Rightarrow>
               Inr (dict self ++ template_vars ++ [''title'' \<mapsto> title self, ''slug'' \<mapsto> Str s],
                    self')))"

text \<open>\<open>Page._render_content(self, engine, **kwargs)\<close>\<close>

definition render_content ::
  "parser \<Rightarrow> slugify \<Rightarrow> template_engine \<Rightarrow> pyobject \<Rightarrow> pyval \<Rightarrow> (string \<rightharpoonup> pyval)
     \<Rightarrow> error + pyval" where
  "render_content P slugify E self engine kwargs =
     (let engine = getattr_default self ''engine'' engine in
      case getattr self ''template'' of
        None \<Rightarrow> Inl AttributeError
      | Some template \<Rightarrow>
          if truthy template \<and> truthy engine then
            (case get_template E engine template of
               Inl e \<Rightarrow> Inl e
             | Inr t \<Rightarrow>
                 (case to_dict slugify self of
                    Inl e \<Rightarrow> Inl e
                  | Inr (d, self') \<Rightarrow>
                      if hasattr self ''content'' then
                        (case markup P self' of
                           Inl e \<Rightarrow> Inl e
                         | Inr m \<Rightarrow>
                             map_sum id Str (render E t (d ++ [''content'' \<mapsto> m] ++ kwargs)))
                      else map_sum id Str (render E t (d ++ kwargs))))
          else if hasattr self ''content'' then markup P self
          else Inl ValueError)"

section \<open>Notions of the claims\<close>

text \<open>A slug without \<open>!\<close>, \<open>[\<close>, \<open>]\<close>, \<open>(\<close>, \<open>)\<close> and without upper-case letters.\<close>

definition slug_clean :: "string \<Rightarrow> bool" where
  "slug_clean s = (\<forall>c \<in> set s. \<not> slug_punct c \<and> \<not> is_upper c)"

text \<open>The attribute name that the constructor of \<open>render_engine/page.py\<close> assigns for a
  parsed line, and the lower-cased name of an attribute of the parser of
  \<open>src/render_engine/page.py\<close>.\<close>

definition legacy_attr_name :: "string \<Rightarrow> string" where
  "legacy_attr_name attr = lower (hd (split_colon1 attr))"

definition attr_name :: "string \<times> pyval \<Rightarrow> string" where
  "attr_name attr = lower (fst attr)"

text \<open>
  Instances of the external parameters, for concrete runs: a parser that returns a fixed
  dict of attributes, a slugify that lower-cases, joins with \<open>_\<close> and deletes the five
  punctuation characters, and an engine whose templates render to the empty string.
\<close>

definition example_parser :: parser where
  "example_parser =
     \<lparr>parse_content_path = (\<lambda>p. Inl OSError),
      parser_parse_content =
        (\<lambda>c. Inr ([(''Slug'', Str ''My Custom Slug''), (''Tags'', Str ''a, B'')], ''Body'')),
      parser_markup = (\<lambda>self c. case c of Str s \<Rightarrow> Inr s | _ \<Rightarrow> Inl TypeError)\<rparr>"

definition example_slugify :: slugify where
  "example_slugify v =
     (case v of Str s \<Rightarrow> Inr (sub_punct (replace_space (lower s))) | _ \<Rightarrow> Inl TypeError)"

definition example_engine :: template_engine where
  "example_engine = \<lparr>get_template = (\<lambda>e t. Inr 0), render = (\<lambda>t context. Inr [])\<rparr>"

text \<open>A parser that returns the given attributes and body for every content, and the
  class \<open>Page\<close> with \<open>template = None\<close>, for concrete runs as well.\<close>

definition fixed_parser :: "(string \<times> pyval) list \<Rightarrow> string \<Rightarrow> parser" where
  "fixed_parser attrs body =
     \<lparr>parse_content_path = (\<lambda>p. Inl OSError),
      parser_parse_content = (\<lambda>c. Inr (attrs, body)),
      parser_markup = (\<lambda>self c. case c of Str s \<Rightarrow> Inr s | _ \<Rightarrow> Inl TypeError)\<rparr>"

definition no_template_Page :: pyclass where
  "no_template_Page = Page\<lparr>class_attrs := (class_attrs Page)(''template'' \<mapsto> PyNone)\<rparr>"

text \<open>The key of the instance \<open>__dict__\<close> that the loop of the constructor of
  \<open>src/render_engine/page.py\<close> writes for a parsed attribute: the lower-cased name, with \<open>_\<close>
  in front when it is in \<open>invalid_attrs\<close>; the setters of \<open>title\<close> and \<open>slug\<close> write \<open>_title\<close>
  and \<open>_slug\<close>.\<close>

definition stored_key :: "pyval \<Rightarrow> string \<times> pyval \<Rightarrow> string" where
  "stored_key invalid_attrs attr =
     (let name = lower (fst attr);
          name = (if py_in name invalid_attrs = Inr True then ''_'' @ name else name)
      in if name = ''title'' then ''_title'' else if name = ''slug'' then ''_slug'' else name)"

section \<open>The attribute parser: properties\<close>


lemma re_split_not_Nil: "re_split prev acc s \<noteq> []"
  by (induction prev acc s rule: re_split.induct) (auto split: option.splits)

lemma nomatch_re_split: "nomatch prev s \<Longrightarrow> re_split prev acc s = [rev acc @ s]"
  by (induction s arbitrary: prev acc) auto

lemma nomatch_suffix: "nomatch p (u @ v) \<Longrightarrow> \<exists>q. nomatch q v"
  by (induction u arbitrary: p) auto

lemma base_matcher_append:
  assumes "base_matcher q x = Some (m, r)"
  shows "base_matcher q (x @ t) \<noteq> None"
proof -
  from assms obtain c2 c3 r' where
    q: "q = None \<or> q = Some newline" and
    k: "takeWhile is_word x \<noteq> []" and
    d: "dropWhile is_word x = CHR '':'' # c2 # c3 # r'" and
    c: "c2 = CHR '' ''" "is_word c3"
    by (auto simp: base_matcher_def Let_def split: if_splits list.splits)
  have nw: "\<not> is_word (CHR '':'')"
    by (simp add: is_word_def)
  have mem: "CHR '':'' \<in> set x"
    by (metis d list.set_intros(1) set_dropWhileD)
  have t: "takeWhile is_word (x @ t) = takeWhile is_word x"
    using mem nw by (rule takeWhile_append1)
  have dd: "dropWhile is_word (x @ t) = dropWhile is_word x @ t"
    using mem nw by (rule dropWhile_append1)
  show ?thesis
    using q k c by (simp add: base_matcher_def Let_def t dd d)
qed

lemma nomatch_prefix: "nomatch q (w @ t) \<Longrightarrow> nomatch q w"
proof (induction w arbitrary: q)
  case Nil
  then show ?case by simp
next
  case (Cons c w)
  from Cons.prems have n: "base_matcher q (c # w @ t) = None" and r: "nomatch (Some c) (w @ t)"
    by simp_all
  have "base_matcher q (c # w) = None"
  proof (cases "base_matcher q (c # w)")
    case None
    then show ?thesis .
  next
    case (Some a)
    then obtain m r where "base_matcher q (c # w) = Some (m, r)" by (cases a) auto
    from base_matcher_append [OF this, of t] n show ?thesis by simp
  qed
  with Cons.IH [OF r] show ?case by simp
qed

lemma rstrip_decomp: "y = rev (dropWhile P (rev y)) @ rev (takeWhile P (rev y))"
proof -
  have "rev (rev y) = rev (takeWhile P (rev y) @ dropWhile P (rev y))"
    by (simp only: takeWhile_dropWhile_id)
  then show ?thesis
    by (simp only: rev_rev_ident rev_append)
qed

lemma strip_decomp: "\<exists>u t. s = u @ strip s @ t"
proof -
  let ?y = "dropWhile is_space s"
  have 1: "s = takeWhile is_space s @ ?y" by simp
  have 2: "?y = strip s @ rev (takeWhile is_space (rev ?y))"
    unfolding strip_def by (rule rstrip_decomp)
  from 1 2 show ?thesis by metis
qed

lemma nomatch_strip: "nomatch p r \<Longrightarrow> \<exists>q. nomatch q (strip r)"
proof -
  assume a: "nomatch p r"
  obtain u t where "r = u @ strip r @ t" using strip_decomp by blast
  with a have "nomatch p (u @ strip r @ t)" by simp
  then obtain q where "nomatch q (strip r @ t)" using nomatch_suffix by blast
  then have "nomatch q (strip r)" by (rule nomatch_prefix)
  then show ?thesis ..
qed

lemma length_strip: "length (strip s) \<le> length s"
proof -
  obtain u t where "s = u @ strip s @ t" using strip_decomp by blast
  then have "length s = length u + length (strip s) + length t"
    by (metis length_append add.assoc)
  then show ?thesis by simp
qed

lemma strip_idem: "strip (strip s) = strip s"
proof -
  let ?y = "dropWhile is_space s"
  let ?z = "strip s"
  have rz: "rev ?z = dropWhile is_space (rev ?y)" by (simp add: strip_def)
  have 2: "?y = ?z @ rev (takeWhile is_space (rev ?y))"
    unfolding strip_def by (rule rstrip_decomp)
  have a: "dropWhile is_space ?z = ?z"
  proof (cases "?z = []")
    case True
    then show ?thesis by simp
  next
    case False
    then have "hd ?z = hd ?y" using 2 by (metis hd_append2)
    moreover have "?y \<noteq> []" using False 2 by (metis append_is_Nil_conv)
    ultimately have "\<not> is_space (hd ?z)" using hd_dropWhile by metis
    with False show ?thesis by (simp add: dropWhile_eq_self_iff)
  qed
  have b: "dropWhile is_space (rev ?z) = rev ?z"
    by (simp add: rz)
  have "strip ?z = rev (dropWhile is_space (rev (dropWhile is_space ?z)))"
    by (simp add: strip_def)
  also have "\<dots> = rev (dropWhile is_space (rev ?z))" by (simp only: a)
  also have "\<dots> = ?z" by (simp only: b rev_rev_ident)
  finally show ?thesis .
qed

lemma re_split_last:
  "(nomatch prev s \<and> last (re_split prev acc s) = rev acc @ s) \<or>
   (\<exists>p. nomatch p (last (re_split prev acc s)) \<and> length (last (re_split prev acc s)) < length s)"
proof (induction prev acc s rule: re_split.induct)
  case (1 prev acc)
  then show ?case by simp
next
  case (2 prev acc c cs)
  show ?case
  proof (cases "base_matcher prev (c # cs)")
    case None
    from "2.IH"(1) [OF None] None show ?thesis
      by auto
  next
    case (Some a)
    obtain m rest where a: "a = (m, rest)" by (cases a)
    have sh: "length rest < length (c # cs)"
      using Some a base_matcher_shorter by blast
    have l: "last (re_split prev acc (c # cs)) = last (re_split (Some (last m)) [] rest)"
      using Some a by (simp add: re_split_not_Nil)
    from "2.IH"(2) [OF Some a [symmetric]]
    have "\<exists>p. nomatch p (last (re_split (Some (last m)) [] rest)) \<and>
        length (last (re_split (Some (last m)) [] rest)) \<le> length rest"
      by (auto intro: less_imp_le)
    with sh l show ?thesis
      by (metis le_less_trans)
  qed
qed


lemma parse_content_eq:
  "parse_content t =
     Inr (filter (\<lambda>x. strip x \<noteq> []) (butlast (re_split None [] t)), strip (last (re_split None [] t)))"
  by (simp add: parse_content_def Let_def re_split_not_Nil)

lemma body_nomatch: "\<exists>q. nomatch q (strip (last (re_split None [] t)))"
proof -
  have "\<exists>p. nomatch p (last (re_split None [] t))"
    using re_split_last [of None t "[]"] by auto
  then show ?thesis
    using nomatch_strip by blast
qed

lemma reparse_stripped:
  assumes n: "nomatch q b" and s: "strip b = b"
  shows "strip (last (re_split None [] b)) = b \<longleftrightarrow> base_matcher None b = None"
proof (cases b)
  case Nil
  then show ?thesis
    by (simp add: strip_def base_matcher_def)
next
  case (Cons c cs)
  with n have t: "nomatch (Some c) cs" by simp
  show ?thesis
  proof (cases "base_matcher None b")
    case None
    with Cons t have "re_split None [] b = [b]"
      by (simp add: nomatch_re_split)
    with s None show ?thesis by simp
  next
    case (Some a)
    obtain m rest where a: "a = (m, rest)" by (cases a)
    have sh: "length rest < length b"
      using Some a base_matcher_shorter by blast
    have l: "last (re_split None [] b) = last (re_split (Some (last m)) [] rest)"
      using Some a Cons by (simp add: re_split_not_Nil)
    have "length (last (re_split (Some (last m)) [] rest)) \<le> length rest"
      using re_split_last [of "Some (last m)" rest "[]"] by auto
    with sh l have "length (last (re_split None [] b)) < length b"
      by simp
    with length_strip [of "last (re_split None [] b)"]
    have "length (strip (last (re_split None [] b))) < length b"
      by simp
    then have "strip (last (re_split None [] b)) \<noteq> b"
      by auto
    with Some show ?thesis by simp
  qed
qed


text \<open>
  C1 (the code departs from the claim). The claim: attribute lines are recognised only in a
  contiguous run at the start of the text, the first line that does not match begins the
  body, and a \<open>key: value\<close> line after the header block is never returned among the
  attributes. The parser splits the whole text instead: in the document below the body line
  \<open>Note: see below\<close> is returned as an attribute, the text between the two header lines is
  returned among the attributes too, and only \<open>more text\<close> is left as the body.
\<close>

theorem parse_content_header_line_in_body:
  "parse_content ''title: Post\<newline>\<newline>Intro text\<newline>Note: see below\<newline>more text'' =
     Inr ([''title: Post'', ''\<newline>\<newline>Intro text\<newline>'', ''Note: see below''], ''more text'')"
  by (simp add: parse_content_def base_matcher_def strip_def is_space_def is_word_def
      newline_def)

text \<open>
  C6 (as stated, refuted). The claim: parsing the body of a first parse returns that body
  again. \<open>strip\<close> removes the blanks before an indented header line, which then stands at the
  start of the body, and the second parse takes it as an attribute.
\<close>

theorem parse_content_reparse_counterexample:
  "parse_content '' a: b'' = Inr ([], ''a: b'') \<and>
   parse_content ''a: b'' = Inr ([''a: b''], []) \<and> [] \<noteq> ''a: b''"
  by (simp add: parse_content_def base_matcher_def strip_def is_space_def is_word_def
      newline_def)

text \<open>
  C6 (amended). For every text the two parses return, and the second parse returns the body
  of the first one again exactly when that body does not begin with a header line.
\<close>

theorem parse_content_body_reparse:
  "\<exists>attrs body attrs' body'.
     parse_content text = Inr (attrs, body) \<and> parse_content body = Inr (attrs', body') \<and>
     (body' = body \<longleftrightarrow> base_matcher None body = None)"
proof -
  let ?b = "strip (last (re_split None [] text))"
  obtain q where q: "nomatch q ?b" using body_nomatch by blast
  have "strip ?b = ?b" by (rule strip_idem)
  with q have "strip (last (re_split None [] ?b)) = ?b \<longleftrightarrow> base_matcher None ?b = None"
    by (rule reparse_stripped)
  then show ?thesis
    by (simp add: parse_content_eq)
qed

text \<open>The parser returns on every text: \<open>pop\<close> never meets an empty list.\<close>

lemma parse_content_total: "\<exists>attrs body. parse_content text = Inr (attrs, body)"
  by (simp add: parse_content_eq)

text \<open>
  C7 (the code departs from the claim). The claim: the parser never raises, and a malformed
  header line only drops out of the attributes. The parser never raises
  (\<open>parse_content_total\<close>), but the malformed line \<open>date 2020\<close> below, which a header line
  follows, is returned in the list of attributes.
\<close>

theorem parse_content_malformed_header_line:
  "parse_content ''title: Post\<newline>date 2020\<newline>tags: a\<newline>\<newline>body'' =
     Inr ([''title: Post'', ''\<newline>date 2020\<newline>'', ''tags: a''], ''body'')"
  by (simp add: parse_content_def base_matcher_def strip_def is_space_def is_word_def
      newline_def)

section \<open>The pages: properties\<close>

lemmas legacy_eval =
  legacy_init_def legacy_source_def legacy_finish_def legacy_set_attr_def legacy_setattr_def
  legacy_title_default_def legacy_Page_def getattr_def getattr_default_def hasattr_def
  parse_content_def base_matcher_def strip_def is_space_def is_word_def newline_def
  split_colon1_def split_comma_def lower_def lower_char_def is_upper_def replace_space_def
  sub_punct_def slug_punct_def read_text_def legacy_attr_name_def Let_def char_of_def
  bit_Suc_0_iff

lemmas page_eval =
  page_init_def page_source_def page_set_attr_def page_setattr_def Page_def getattr_def
  getattr_default_def hasattr_def py_or_def title_def slug_def url_def
  underscore_extension_def markup_def render_content_def attr_name_def
  example_parser_def example_slugify_def example_engine_def split_comma_def lower_def
  lower_char_def is_upper_def replace_space_def sub_punct_def slug_punct_def Let_def
  char_of_def bit_Suc_0_iff

subsection \<open>The line of a header unpacks into a name and a value\<close>

lemma split_colon1_aux_key:
  assumes "CHR '':'' \<notin> set k"
  shows "split_colon1_aux acc (k @ CHR '':'' # CHR '' '' # v) = [rev acc @ k, v]"
  using assms
proof (induction k arbitrary: acc)
  case Nil
  then show ?case by simp
next
  case (Cons x k)
  obtain y t where yt: "k @ CHR '':'' # CHR '' '' # v = y # t"
    by (cases "k @ CHR '':'' # CHR '' '' # v") auto
  from Cons.prems have x: "x \<noteq> CHR '':''" and k: "CHR '':'' \<notin> set k" by auto
  have "split_colon1_aux acc ((x # k) @ CHR '':'' # CHR '' '' # v) = split_colon1_aux acc (x # y # t)"
    by (simp add: yt)
  also have "\<dots> = split_colon1_aux (x # acc) (y # t)"
    using x by simp
  also have "\<dots> = split_colon1_aux (x # acc) (k @ CHR '':'' # CHR '' '' # v)"
    by (simp add: yt)
  also have "\<dots> = [rev (x # acc) @ k, v]"
    using k by (rule Cons.IH)
  finally show ?case by simp
qed

lemma header_line_unpacks:
  assumes "base_matcher prev s = Some (m, rest)"
  shows "\<exists>value. split_colon1 m = [takeWhile is_word s, value]"
proof -
  from assms obtain w where
    m: "m = takeWhile is_word s @ CHR '':'' # CHR '' '' # w"
    by (auto simp: base_matcher_def Let_def split: if_splits list.splits)
  have "\<not> is_word (CHR '':'')" by (simp add: is_word_def)
  then have "CHR '':'' \<notin> set (takeWhile is_word s)"
    by (metis set_takeWhileD)
  then show ?thesis
    unfolding m split_colon1_def using split_colon1_aux_key [of "takeWhile is_word s" "[]"]
    by simp
qed

subsection \<open>The url\<close>

text \<open>
  C2 (the code departs from the claim). The claim: the url is the first route, the slug and
  the extension. The property \<open>url\<close> of \<open>src/render_engine/page.py\<close>, whose docstring is "The
  first route and the slug of the page", returns the slug and the extension only: a page of
  class \<open>Page\<close>, whose routes are \<open>["./"]\<close>, has the url \<open>page.html\<close>. (The constructor of
  \<open>render_engine/page.py\<close> sets the url to the first route, \<open>/\<close> and the slug, without an
  extension.)
\<close>

theorem url_omits_route:
  "map_sum id fst (url example_slugify \<lparr>cls = Page, dict = Map.empty\<rparr>) = Inr ''page.html'' \<and>
   class_attrs Page ''routes'' = Some (StrList [''./'']) \<and>
   map_sum id (\<lambda>p. getattr p ''url'') (legacy_init legacy_Page Map.empty None [] False) =
     Inr (Some (Str ''/page''))"
proof (intro conjI)
  show "map_sum id fst (url example_slugify \<lparr>cls = Page, dict = Map.empty\<rparr>) = Inr ''page.html''"
    by (simp add: page_eval)
  show "class_attrs Page ''routes'' = Some (StrList [''./''])"
    by (simp add: Page_def)
  show "map_sum id (\<lambda>p. getattr p ''url'') (legacy_init legacy_Page Map.empty None [] False) =
     Inr (Some (Str ''/page''))"
    by (simp add: legacy_eval)
qed

text \<open>The extension of the url always starts with a dot: one is put in front of an
  extension that has none.\<close>

lemma underscore_extension_dot:
  assumes "underscore_extension self = Inr e"
  shows "take 1 e = ''.''"
  using assms
  by (auto simp: underscore_extension_def split: option.splits pyval.splits if_splits)

subsection \<open>Reserved names\<close>

text \<open>
  C3 (as stated, refuted). The claim: an attribute whose name is reserved is stored under a
  renamed key that collides with nothing, with its value preserved. The new key is the name
  with \<open>_\<close> in front, and another attribute can have that name: from the attributes
  \<open>slug: A\<close> and \<open>_slug: B\<close> the constructor of \<open>src/render_engine/page.py\<close> builds a page
  whose \<open>_slug\<close> is \<open>B\<close>.
\<close>

theorem reserved_attr_overwritten:
  "parser_parse_content (fixed_parser [(''slug'', Str ''A''), (''_slug'', Str ''B'')] ''Body'')
     (Str ''text'') = Inr ([(''slug'', Str ''A''), (''_slug'', Str ''B'')], ''Body'') \<and>
   py_in ''slug'' (StrList [''slug'']) = Inr True \<and>
   map_sum id (\<lambda>p. (dict p ''_slug'', dict p ''slug''))
     (page_init (fixed_parser [(''slug'', Str ''A''), (''_slug'', Str ''B'')] ''Body'')
        example_slugify Page (Str ''text'') PyNone) = Inr (Some (Str ''B''), None)"
  by (simp add: page_eval fixed_parser_def)

text \<open>Each turn of the loop writes one key, and a loop leaves alone the keys that none of
  its attributes writes.\<close>

lemma page_set_attr_writes:
  assumes "page_set_attr slugify iv self a = Inr self'"
  shows "\<exists>w. self' = self\<lparr>dict := (dict self)(stored_key iv a \<mapsto> w)\<rparr>"
  using assms
  by (auto simp: page_set_attr_def page_setattr_def stored_key_def Let_def
      split: sum.splits if_splits)

lemma page_set_attrs_frame:
  assumes "page_set_attrs slugify iv self attrs = Inr p"
    and "\<forall>a \<in> set attrs. stored_key iv a \<noteq> k"
  shows "dict p k = dict self k \<and> cls p = cls self"
  using assms
proof (induction attrs arbitrary: self)
  case Nil
  then show ?case by simp
next
  case (Cons a attrs)
  from Cons.prems(1) obtain mid where
    a: "page_set_attr slugify iv self a = Inr mid"
    and r: "page_set_attrs slugify iv mid attrs = Inr p"
    by (auto split: sum.splits)
  from page_set_attr_writes [OF a] obtain w where
    "mid = self\<lparr>dict := (dict self)(stored_key iv a \<mapsto> w)\<rparr>" ..
  moreover from Cons.prems(2) have "stored_key iv a \<noteq> k" by simp
  ultimately have "dict mid k = dict self k" and "cls mid = cls self" by simp_all
  moreover from Cons.prems(2) have "\<forall>a \<in> set attrs. stored_key iv a \<noteq> k" by simp
  from Cons.IH [OF r this] have "dict p k = dict mid k \<and> cls p = cls mid" .
  ultimately show ?case by simp
qed

lemma page_set_attrs_append:
  assumes "page_set_attrs slugify iv self (pre @ a # post) = Inr p"
  shows "\<exists>mid mid'. page_set_attrs slugify iv self pre = Inr mid \<and>
           page_set_attr slugify iv mid a = Inr mid' \<and>
           page_set_attrs slugify iv mid' post = Inr p"
  using assms
proof (induction pre arbitrary: self)
  case Nil
  then show ?case by (auto split: sum.splits)
next
  case (Cons b pre)
  from Cons.prems obtain s1 where
    b: "page_set_attr slugify iv self b = Inr s1"
    and r: "page_set_attrs slugify iv s1 (pre @ a # post) = Inr p"
    by (auto split: sum.splits)
  from Cons.IH [OF r] b show ?case by auto
qed

lemma page_set_attr_reserved:
  assumes "py_in (lower name) iv = Inr True"
    and "page_set_attr slugify iv self (name, value) = Inr self'"
  shows "dict self' (''_'' @ lower name) =
           Some (if py_in (''_'' @ lower name) (getattr_default self ''list_attrs'' (StrList [])) = Inr True
                 then (case value of Str s \<Rightarrow> StrList (map lower (split_comma s)) | _ \<Rightarrow> value)
                 else value)"
  using assms
  by (auto simp: page_set_attr_def page_setattr_def Let_def
      split: sum.splits if_splits pyval.splits)

lemma stored_key_reserved_name:
  assumes r: "py_in n iv = Inr True" and u: "take 1 n \<noteq> ''_''"
  shows "stored_key iv a \<noteq> n"
proof (cases "py_in (lower (fst a)) iv = Inr True")
  case True
  then have "stored_key iv a = ''_'' @ lower (fst a)"
    by (simp add: stored_key_def Let_def)
  with u show ?thesis by auto
next
  case False
  with r have "lower (fst a) \<noteq> n" by auto
  with False u show ?thesis
    by (auto simp: stored_key_def Let_def)
qed

lemma page_init_loop:
  assumes "page_init P slugify c content content_path = Inr p"
    and "page_source P \<lparr>cls = c, dict = Map.empty\<rparr> content content_path = Inr src"
    and "truthy src"
    and "parser_parse_content P src = Inr (attrs, body)"
    and "class_attrs c ''invalid_attrs'' = Some iv"
  shows "page_set_attrs slugify (py_or iv (StrList []))
           \<lparr>cls = c, dict = [''content'' \<mapsto> Str body]\<rparr> attrs = Inr p"
  using assms
  by (auto simp: page_init_def getattr_def Let_def split: sum.splits option.splits)

text \<open>
  C3 (amended). Let the constructor of \<open>src/render_engine/page.py\<close> return a page built from
  parsed attributes, one of which has a lower-cased name in \<open>invalid_attrs\<close>, and let no
  later attribute be written to the key made of \<open>_\<close> and that name. Then the page holds
  under this key the value of the attribute, or, for a string value whose new key is itself
  a list attribute, its list of lower-cased pieces; it holds the value itself when the
  class has no \<open>list_attrs\<close> and no earlier attribute is written to \<open>list_attrs\<close>. Nothing is
  stored under the reserved name itself (a name that does not begin with \<open>_\<close> and is not
  \<open>content\<close>).
\<close>

theorem reserved_attr_stored:
  assumes init: "page_init P slugify c content content_path = Inr p"
    and src: "page_source P \<lparr>cls = c, dict = Map.empty\<rparr> content content_path = Inr src"
    and tr: "truthy src"
    and parse: "parser_parse_content P src = Inr (pre @ (name, value) # post, body)"
    and iv: "class_attrs c ''invalid_attrs'' = Some iv"
    and res: "py_in (lower name) (py_or iv (StrList [])) = Inr True"
    and last: "\<forall>a \<in> set post. stored_key (py_or iv (StrList [])) a \<noteq> ''_'' @ lower name"
  shows "(dict p (''_'' @ lower name) = Some value \<or>
          (\<exists>s. value = Str s \<and>
               dict p (''_'' @ lower name) = Some (StrList (map lower (split_comma s))))) \<and>
         (class_attrs c ''list_attrs'' = None \<longrightarrow>
          (\<forall>a \<in> set pre. stored_key (py_or iv (StrList [])) a \<noteq> ''list_attrs'') \<longrightarrow>
            dict p (''_'' @ lower name) = Some value) \<and>
         (take 1 (lower name) \<noteq> ''_'' \<longrightarrow> lower name \<noteq> ''content'' \<longrightarrow>
            dict p (lower name) = None)"
proof -
  let ?iv = "py_or iv (StrList [])"
  let ?self = "\<lparr>cls = c, dict = [''content'' \<mapsto> Str body]\<rparr>"
  let ?k = "''_'' @ lower name"
  have loop: "page_set_attrs slugify ?iv ?self (pre @ (name, value) # post) = Inr p"
    using init src tr parse iv by (rule page_init_loop)
  then obtain mid mid' where
    p1: "page_set_attrs slugify ?iv ?self pre = Inr mid"
    and st: "page_set_attr slugify ?iv mid (name, value) = Inr mid'"
    and p2: "page_set_attrs slugify ?iv mid' post = Inr p"
    using page_set_attrs_append by blast
  from page_set_attrs_frame [OF p2 last] have keep: "dict p ?k = dict mid' ?k"
    by simp
  note stored = page_set_attr_reserved [OF res st]
  have a: "dict p ?k = Some value \<or>
          (\<exists>s. value = Str s \<and> dict p ?k = Some (StrList (map lower (split_comma s))))"
    using stored keep by (auto split: if_splits pyval.splits)
  have b: "dict p ?k = Some value"
    if "class_attrs c ''list_attrs'' = None"
      and "\<forall>a \<in> set pre. stored_key ?iv a \<noteq> ''list_attrs''"
  proof -
    from page_set_attrs_frame [OF p1 that(2)] that(1)
    have "getattr_default mid ''list_attrs'' (StrList []) = StrList []"
      by (simp add: getattr_default_def getattr_def)
    with stored keep show ?thesis by simp
  qed
  have c: "dict p (lower name) = None"
    if "take 1 (lower name) \<noteq> ''_''" and "lower name \<noteq> ''content''"
  proof -
    have "\<forall>a \<in> set (pre @ (name, value) # post). stored_key ?iv a \<noteq> lower name"
      using stored_key_reserved_name [OF res that(1)] by blast
    from page_set_attrs_frame [OF loop this] that(2) show ?thesis by simp
  qed
  from a b c show ?thesis by blast
qed

text \<open>The attributes \<open>Slug: My Custom Slug\<close> and \<open>Tags: a, B\<close> of the example parser on the
  class \<open>Page\<close>.\<close>

theorem reserved_attr_stored_witness:
  "\<exists>p. page_init example_parser example_slugify Page (Str ''text'') PyNone = Inr p \<and>
        parser_parse_content example_parser (Str ''text'') =
          Inr ([] @ (''Slug'', Str ''My Custom Slug'') # [(''Tags'', Str ''a, B'')], ''Body'') \<and>
        py_in (lower ''Slug'') (py_or (StrList [''slug'']) (StrList [])) = Inr True \<and>
        stored_key (py_or (StrList [''slug'']) (StrList [])) (''Tags'', Str ''a, B'') = ''tags'' \<and>
        dict p ''_slug'' = Some (Str ''My Custom Slug'') \<and> dict p ''slug'' = None"
proof -
  obtain p where p: "page_init example_parser example_slugify Page (Str ''text'') PyNone = Inr p"
    by (simp add: page_eval)
  have src: "page_source example_parser \<lparr>cls = Page, dict = Map.empty\<rparr> (Str ''text'') PyNone =
               Inr (Str ''text'')"
    by (simp add: page_eval)
  have tr: "truthy (Str ''text'')" by simp
  have parse: "parser_parse_content example_parser (Str ''text'') =
      Inr ([] @ (''Slug'', Str ''My Custom Slug'') # [(''Tags'', Str ''a, B'')], ''Body'')"
    by (simp add: example_parser_def)
  have iv: "class_attrs Page ''invalid_attrs'' = Some (StrList [''slug''])"
    by (simp add: Page_def)
  have res: "py_in (lower ''Slug'') (py_or (StrList [''slug'']) (StrList [])) = Inr True"
    by (simp add: page_eval)
  have k: "stored_key (py_or (StrList [''slug'']) (StrList [])) (''Tags'', Str ''a, B'') = ''tags''"
    by (simp add: stored_key_def page_eval)
  have last: "\<forall>a \<in> set [(''Tags'', Str ''a, B'')].
      stored_key (py_or (StrList [''slug'']) (StrList [])) a \<noteq> ''_'' @ lower ''Slug''"
    by (simp add: k)
  have la: "class_attrs Page ''list_attrs'' = None"
    by (simp add: Page_def)
  have l: "lower ''Slug'' = ''slug''"
    by (simp add: page_eval)
  from reserved_attr_stored [OF p src tr parse iv res last] la
  have "dict p (''_'' @ lower ''Slug'') = Some (Str ''My Custom Slug'')"
    and "dict p (lower ''Slug'') = None"
    by (simp_all add: l)
  with p parse res k show ?thesis
    by (auto simp: l)
qed

subsection \<open>The slug\<close>

lemma is_upper_lower_char: "\<not> is_upper (lower_char c)"
  by (simp add: is_upper_def lower_char_def Let_def)

lemma slug_clean_normalised: "slug_clean (sub_punct (replace_space (lower s)))"
proof -
  have "\<not> is_upper c" if "c \<in> set (replace_space (lower s))" for c
  proof -
    from that obtain e where e: "e \<in> set (lower s)"
      and ce: "c = (if e = CHR '' '' then CHR ''_'' else e)"
      unfolding replace_space_def by auto
    from e obtain d where "e = lower_char d"
      unfolding lower_def by auto
    with ce have c: "c = (if lower_char d = CHR '' '' then CHR ''_'' else lower_char d)"
      by simp
    show ?thesis
    proof (cases "lower_char d = CHR '' ''")
      case True
      with c show ?thesis by (simp add: is_upper_def)
    next
      case False
      with c show ?thesis by (simp add: is_upper_lower_char)
    qed
  qed
  then show ?thesis
    by (simp add: slug_clean_def sub_punct_def)
qed

lemma legacy_finish_slug:
  assumes "legacy_finish self = Inr p"
  shows "\<exists>s. getattr p ''slug'' = Some (Str (sub_punct (replace_space (lower s))))"
  using assms unfolding legacy_finish_def Let_def
  by (auto simp: getattr_def split: option.splits pyval.splits sum.splits)

lemma legacy_init_finish:
  assumes "legacy_init c fs content_path content no_index = Inr p"
  shows "\<exists>self. legacy_finish self = Inr p"
  using assms unfolding legacy_init_def Let_def
  by (auto split: sum.splits prod.splits)

lemma slug_range:
  assumes "slug slugify self = Inr (s, self')"
  shows "\<exists>v. slugify v = Inr s"
  using assms unfolding slug_def Let_def
  by (auto split: sum.splits)

text \<open>
  C4. Every page that the constructor of \<open>render_engine/page.py\<close> returns has a slug that is
  a string without \<open>!\<close>, \<open>[\<close>, \<open>]\<close>, \<open>(\<close>, \<open>)\<close> and without upper-case letters, whatever the
  title, the \<open>slug\<close> attribute, the class and the files are. The property \<open>slug\<close> of
  \<open>src/render_engine/page.py\<close> returns a result of \<open>slugify\<close> whenever it returns: its slug is
  as clean as the slugs of the \<open>slugify\<close> package are.
\<close>

theorem slug_is_clean:
  "(legacy_init c fs content_path content no_index = Inr p \<longrightarrow>
      (\<exists>s. getattr p ''slug'' = Some (Str s) \<and> slug_clean s)) \<and>
   ((\<forall>v t. slugify v = Inr t \<longrightarrow> slug_clean t) \<longrightarrow>
      slug slugify self = Inr (s', self') \<longrightarrow> slug_clean s')"
proof (intro conjI impI)
  assume "legacy_init c fs content_path content no_index = Inr p"
  then obtain self0 where "legacy_finish self0 = Inr p"
    using legacy_init_finish by blast
  then obtain s where "getattr p ''slug'' = Some (Str (sub_punct (replace_space (lower s))))"
    using legacy_finish_slug by blast
  then show "\<exists>s. getattr p ''slug'' = Some (Str s) \<and> slug_clean s"
    using slug_clean_normalised by blast
next
  assume c: "\<forall>v t. slugify v = Inr t \<longrightarrow> slug_clean t"
    and s: "slug slugify self = Inr (s', self')"
  from s obtain v where "slugify v = Inr s'"
    using slug_range by blast
  with c show "slug_clean s'" by blast
qed

text \<open>The title \<open>Hello [World]!\<close> in both implementations.\<close>

theorem slug_is_clean_witness:
  "(\<exists>p s. legacy_init legacy_Page Map.empty None ''title: Hello [World]!'' False = Inr p \<and>
      getattr p ''slug'' = Some (Str s) \<and> slug_clean s) \<and>
   (\<exists>self'. slug example_slugify \<lparr>cls = Page, dict = [''_title'' \<mapsto> Str ''Hello [World]!'']\<rparr> =
      Inr (''hello_world'', self') \<and> slug_clean ''hello_world'')"
proof -
  obtain p where p: "legacy_init legacy_Page Map.empty None ''title: Hello [World]!'' False = Inr p"
    by (simp add: legacy_eval)
  have c: "\<forall>v t. example_slugify v = Inr t \<longrightarrow> slug_clean t"
    by (auto simp: example_slugify_def slug_clean_normalised split: pyval.splits)
  obtain self' where
    s: "slug example_slugify \<lparr>cls = Page, dict = [''_title'' \<mapsto> Str ''Hello [World]!'']\<rparr> =
          Inr (''hello_world'', self')"
    by (simp add: page_eval)
  from slug_is_clean [of legacy_Page Map.empty None "''title: Hello [World]!''" False p
      example_slugify "\<lparr>cls = Page, dict = [''_title'' \<mapsto> Str ''Hello [World]!'']\<rparr>"
      "''hello_world''" self'] p c s
  show ?thesis by blast
qed

subsection \<open>Rendering\<close>

text \<open>
  C5 (as stated, refuted). The claim: rendering a page with neither body content nor a
  template raises. \<open>_render_content\<close> asks whether the page has a \<open>content\<close> attribute, not
  whether the content is empty: a page of a class with \<open>template = None\<close>, built from a
  document that has a header and an empty body, has the content \<open>""\<close>, and rendering it
  returns the markup of the empty string.
\<close>

theorem render_content_empty_body:
  "page_init (fixed_parser [(''Title'', Str ''T'')] []) example_slugify no_template_Page
     (Str ''Title: T'') PyNone =
     Inr \<lparr>cls = no_template_Page, dict = [''content'' \<mapsto> Str [], ''_title'' \<mapsto> Str ''T'']\<rparr> \<and>
   render_content (fixed_parser [(''Title'', Str ''T'')] []) example_slugify example_engine
     \<lparr>cls = no_template_Page, dict = [''content'' \<mapsto> Str [], ''_title'' \<mapsto> Str ''T'']\<rparr>
     PyNone Map.empty = Inr (Str [])"
  by (simp add: page_eval fixed_parser_def no_template_Page_def)

text \<open>When the page has no \<open>template\<close> attribute at all, reading \<open>self.template\<close> raises
  before anything else is looked at.\<close>

lemma render_content_missing_template:
  assumes "getattr self ''template'' = None"
  shows "render_content P slugify E self engine kwargs = Inl AttributeError"
  using assms by (simp add: render_content_def Let_def)

text \<open>
  C5 (amended). A page of \<open>src/render_engine/page.py\<close> that has no \<open>content\<close> attribute and
  whose \<open>template\<close> has a false value (\<open>None\<close>, the empty string) is not rendered:
  \<open>_render_content\<close> raises ValueError, whatever the parser, the engine and the arguments
  are; so does every page built without content of a class that defines neither \<open>content\<close>
  nor \<open>content_path\<close> and has a false \<open>template\<close>. A page that has a \<open>content\<close> attribute,
  even an empty one, and a false \<open>template\<close> is rendered as its markup.
\<close>

theorem render_content_without_content_attribute:
  "(getattr self ''content'' = None \<longrightarrow> getattr self ''template'' = Some t \<longrightarrow> \<not> truthy t \<longrightarrow>
      render_content P slugify E self engine kwargs = Inl ValueError) \<and>
   (getattr self ''content'' = Some b \<longrightarrow> getattr self ''template'' = Some t \<longrightarrow> \<not> truthy t \<longrightarrow>
      render_content P slugify E self engine kwargs = markup P self) \<and>
   (class_attrs c ''content'' = None \<longrightarrow> class_attrs c ''content_path'' = None \<longrightarrow>
    class_attrs c ''template'' = Some t' \<longrightarrow> \<not> truthy t' \<longrightarrow>
    page_init P slugify c PyNone PyNone = Inr p \<longrightarrow>
      render_content P slugify E p engine kwargs = Inl ValueError)"
proof (intro conjI impI)
  assume "getattr self ''content'' = None" "getattr self ''template'' = Some t" "\<not> truthy t"
  then show "render_content P slugify E self engine kwargs = Inl ValueError"
    by (simp add: render_content_def hasattr_def Let_def)
next
  assume "getattr self ''content'' = Some b" "getattr self ''template'' = Some t" "\<not> truthy t"
  then show "render_content P slugify E self engine kwargs = markup P self"
    by (simp add: render_content_def hasattr_def Let_def)
next
  assume a: "class_attrs c ''content'' = None" "class_attrs c ''content_path'' = None"
    and t: "class_attrs c ''template'' = Some t'" "\<not> truthy t'"
    and i: "page_init P slugify c PyNone PyNone = Inr p"
  from a have "page_source P \<lparr>cls = c, dict = Map.empty\<rparr> PyNone PyNone = Inr PyNone"
    by (simp add: page_source_def getattr_default_def getattr_def py_or_def)
  with i have "p = \<lparr>cls = c, dict = Map.empty\<rparr>"
    by (auto simp: page_init_def Let_def split: option.splits)
  with a t show "render_content P slugify E p engine kwargs = Inl ValueError"
    by (simp add: render_content_def hasattr_def getattr_def Let_def)
qed

text \<open>Pages of the class \<open>Page\<close> with \<open>template = None\<close>: one built without content, one with
  the content \<open>Body\<close>.\<close>

theorem render_content_without_content_attribute_witness:
  "getattr \<lparr>cls = no_template_Page, dict = Map.empty\<rparr> ''content'' = None \<and>
   getattr \<lparr>cls = no_template_Page, dict = Map.empty\<rparr> ''template'' = Some PyNone \<and>
   page_init example_parser example_slugify no_template_Page PyNone PyNone =
     Inr \<lparr>cls = no_template_Page, dict = Map.empty\<rparr> \<and>
   render_content example_parser example_slugify example_engine
     \<lparr>cls = no_template_Page, dict = Map.empty\<rparr> (Opaque 0) Map.empty = Inl ValueError \<and>
   getattr \<lparr>cls = no_template_Page, dict = [''content'' \<mapsto> Str ''Body'']\<rparr> ''content'' =
     Some (Str ''Body'') \<and>
   render_content example_parser example_slugify example_engine
     \<lparr>cls = no_template_Page, dict = [''content'' \<mapsto> Str ''Body'']\<rparr> (Opaque 0) Map.empty =
     Inr (Str ''Body'')"
  using render_content_without_content_attribute
      [of "\<lparr>cls = no_template_Page, dict = Map.empty\<rparr>" PyNone example_parser example_slugify
        example_engine "Opaque 0" Map.empty "Str ''Body''" no_template_Page PyNone
        "\<lparr>cls = no_template_Page, dict = Map.empty\<rparr>"]
    render_content_without_content_attribute
      [of "\<lparr>cls = no_template_Page, dict = [''content'' \<mapsto> Str ''Body'']\<rparr>" PyNone example_parser
        example_slugify example_engine "Opaque 0" Map.empty "Str ''Body''" no_template_Page PyNone
        "\<lparr>cls = no_template_Page, dict = Map.empty\<rparr>"]
  by (simp add: page_eval no_template_Page_def)

text \<open>
  C10. The property \<open>markup\<close> of \<open>src/render_engine/page.py\<close> returns \<open>None\<close> on a page without a
  \<open>content\<close> attribute, and otherwise what the parser's \<open>markup\<close> makes of the content (or
  the parser's error). A page built without content, of a class that defines neither
  \<open>content\<close> nor \<open>content_path\<close>, has no \<open>content\<close> attribute: its markup is \<open>None\<close>.
\<close>

theorem markup_without_content:
  "(getattr self ''content'' = None \<longrightarrow> markup P self = Inr PyNone) \<and>
   (\<forall>c. getattr self ''content'' = Some c \<longrightarrow>
      markup P self = map_sum id Str (parser_markup P self c)) \<and>
   (class_attrs c ''content'' = None \<longrightarrow> class_attrs c ''content_path'' = None \<longrightarrow>
      page_init P slugify c PyNone PyNone = Inr p \<longrightarrow> markup P p = Inr PyNone)"
proof (intro conjI impI allI)
  assume "getattr self ''content'' = None"
  then show "markup P self = Inr PyNone"
    by (simp add: markup_def)
next
  fix c assume "getattr self ''content'' = Some c"
  then show "markup P self = map_sum id Str (parser_markup P self c)"
    by (simp add: markup_def split: sum.splits)
next
  assume a: "class_attrs c ''content'' = None" "class_attrs c ''content_path'' = None"
    and i: "page_init P slugify c PyNone PyNone = Inr p"
  from a have "page_source P \<lparr>cls = c, dict = Map.empty\<rparr> PyNone PyNone = Inr PyNone"
    by (simp add: page_source_def getattr_default_def getattr_def py_or_def)
  with i have "p = \<lparr>cls = c, dict = Map.empty\<rparr>"
    by (auto simp: page_init_def Let_def split: option.splits)
  with a show "markup P p = Inr PyNone"
    by (simp add: markup_def getattr_def)
qed

text \<open>\<open>Page()\<close>, and a page whose content is \<open>Body\<close>.\<close>

theorem markup_without_content_witness:
  "page_init example_parser example_slugify Page PyNone PyNone =
     Inr \<lparr>cls = Page, dict = Map.empty\<rparr> \<and>
   markup example_parser \<lparr>cls = Page, dict = Map.empty\<rparr> = Inr PyNone \<and>
   getattr \<lparr>cls = Page, dict = [''content'' \<mapsto> Str ''Body'']\<rparr> ''content'' = Some (Str ''Body'') \<and>
   markup example_parser \<lparr>cls = Page, dict = [''content'' \<mapsto> Str ''Body'']\<rparr> = Inr (Str ''Body'')"
  using markup_without_content [of "\<lparr>cls = Page, dict = Map.empty\<rparr>" example_parser
      Page example_slugify "\<lparr>cls = Page, dict = Map.empty\<rparr>"]
    markup_without_content [of "\<lparr>cls = Page, dict = [''content'' \<mapsto> Str ''Body'']\<rparr>"
      example_parser Page example_slugify "\<lparr>cls = Page, dict = Map.empty\<rparr>"]
  by (simp add: page_eval)

subsection \<open>List attributes\<close>



subsection \<open>The title\<close>

text \<open>
  C9 (as stated, refuted). The claim: without an explicit title, the title is the default
  name that the variant configures, and the class name otherwise. A page of class \<open>Page\<close>,
  which configures no name, built from a document with the line \<open>name: Foo\<close>, has the title
  \<open>Foo\<close>: the constructor reads the attribute \<open>name\<close> of the page, which the document sets.
\<close>

theorem legacy_title_from_name_attribute:
  "map_sum id (\<lambda>p. getattr p ''title'')
     (legacy_init legacy_Page Map.empty None ''name: Foo\<newline>\<newline>Body'' False) =
     Inr (Some (Str ''Foo'')) \<and>
   class_name legacy_Page = ''Page'' \<and> class_attrs legacy_Page ''name'' = None \<and>
   class_attrs legacy_Page ''title'' = None"
  by (simp add: legacy_eval)

lemma legacy_set_attr_other:
  assumes "legacy_set_attr self attr = Inr self'" and "legacy_attr_name attr \<noteq> k"
  shows "dict self' k = dict self k \<and> cls self' = cls self"
  using assms
  by (auto simp: legacy_set_attr_def legacy_setattr_def legacy_attr_name_def
      split: list.splits option.splits sum.splits if_splits)

lemma legacy_set_attrs_other:
  assumes "legacy_set_attrs self attrs = Inr self'" and "k \<notin> legacy_attr_name ` set attrs"
  shows "dict self' k = dict self k \<and> cls self' = cls self"
  using assms
proof (induction attrs arbitrary: self)
  case Nil
  then show ?case by simp
next
  case (Cons a attrs)
  from Cons.prems(1) obtain mid where
    a: "legacy_set_attr self a = Inr mid" and r: "legacy_set_attrs mid attrs = Inr self'"
    by (auto split: sum.splits)
  from Cons.prems(2) have "legacy_attr_name a \<noteq> k" and "k \<notin> legacy_attr_name ` set attrs"
    by auto
  with a r Cons.IH [of mid] legacy_set_attr_other [of self a mid k] show ?case
    by simp
qed

lemma legacy_finish_title:
  assumes "legacy_finish self = Inr p" and "dict self ''title'' = None"
  shows "getattr p ''title'' =
           Some (case class_attrs (cls self) ''title'' of
                   Some t \<Rightarrow> t
                 | None \<Rightarrow> legacy_title_default p)"
  using assms unfolding legacy_finish_def Let_def
  by (auto simp: getattr_def hasattr_def getattr_default_def legacy_title_default_def
      split: option.splits pyval.splits sum.splits if_splits)

lemma legacy_title:
  assumes i: "legacy_init c fs content_path content no_index = Inr p"
    and s: "legacy_source \<lparr>cls = c, dict = [''no_index'' \<mapsto> PyBool no_index]\<rparr> fs content_path
              content = Inr text"
    and pc: "parse_content text = Inr (attrs, body)"
    and n: "''title'' \<notin> legacy_attr_name ` set attrs"
  shows "getattr p ''title'' =
           Some (case class_attrs c ''title'' of
                   Some t \<Rightarrow> t
                 | None \<Rightarrow> legacy_title_default p)"
proof -
  let ?self = "\<lparr>cls = c, dict = [''no_index'' \<mapsto> PyBool no_index, ''_content'' \<mapsto> Str body]\<rparr>"
  from i s pc obtain mid where
    l: "legacy_set_attrs ?self attrs = Inr mid" and f: "legacy_finish mid = Inr p"
    by (auto simp: legacy_init_def Let_def split: sum.splits)
  from legacy_set_attrs_other [OF l n] have "dict mid ''title'' = None" and "cls mid = c"
    by simp_all
  with legacy_finish_title [OF f] show ?thesis by simp
qed

lemma page_set_attr_other_title:
  assumes "page_set_attr slugify invalid_attrs self attr = Inr self'"
    and "attr_name attr \<noteq> ''title''" and "attr_name attr \<noteq> ''_title''"
  shows "dict self' ''_title'' = dict self ''_title'' \<and> cls self' = cls self"
  using assms
  by (auto simp: page_set_attr_def page_setattr_def attr_name_def Let_def
      split: sum.splits if_splits)

lemma page_set_attrs_other_title:
  assumes "page_set_attrs slugify invalid_attrs self attrs = Inr self'"
    and "''title'' \<notin> attr_name ` set attrs" and "''_title'' \<notin> attr_name ` set attrs"
  shows "dict self' ''_title'' = dict self ''_title'' \<and> cls self' = cls self"
  using assms
proof (induction attrs arbitrary: self)
  case Nil
  then show ?case by simp
next
  case (Cons a attrs)
  from Cons.prems(1) obtain mid where
    a: "page_set_attr slugify invalid_attrs self a = Inr mid"
    and r: "page_set_attrs slugify invalid_attrs mid attrs = Inr self'"
    by (auto split: sum.splits)
  from Cons.prems(2,3) have "attr_name a \<noteq> ''title''" "attr_name a \<noteq> ''_title''"
    and "''title'' \<notin> attr_name ` set attrs" "''_title'' \<notin> attr_name ` set attrs"
    by auto
  with a r Cons.IH [of mid] page_set_attr_other_title [of slugify invalid_attrs self a mid]
  show ?case by simp
qed

lemma page_title:
  assumes i: "page_init P slugify c content content_path = Inr p"
    and s: "page_source P \<lparr>cls = c, dict = Map.empty\<rparr> content content_path = Inr src"
    and n: "\<forall>attrs body. parser_parse_content P src = Inr (attrs, body) \<longrightarrow>
              ''title'' \<notin> attr_name ` set attrs \<and> ''_title'' \<notin> attr_name ` set attrs"
  shows "title p = (case class_attrs c ''_title'' of Some t \<Rightarrow> t | None \<Rightarrow> Str (class_name c))"
proof -
  have "dict p ''_title'' = None \<and> cls p = c"
  proof (cases "truthy src")
    case True
    with i s obtain attrs body inv where
      pp: "parser_parse_content P src = Inr (attrs, body)" and
      l: "page_set_attrs slugify inv \<lparr>cls = c, dict = [''content'' \<mapsto> Str body]\<rparr> attrs = Inr p"
      by (auto simp: page_init_def Let_def split: sum.splits option.splits)
    from n pp have "''title'' \<notin> attr_name ` set attrs" "''_title'' \<notin> attr_name ` set attrs"
      by simp_all
    with page_set_attrs_other_title [OF l] show ?thesis by simp
  next
    case False
    with i s have "p = \<lparr>cls = c, dict = Map.empty\<rparr>"
      by (auto simp: page_init_def Let_def split: sum.splits option.splits)
    then show ?thesis by simp
  qed
  then show ?thesis
    by (simp add: title_def getattr_def split: option.splits)
qed

text \<open>
  C9 (amended). A page that the constructor of \<open>render_engine/page.py\<close> builds from a text
  without a \<open>title\<close> line has as title: the \<open>title\<close> of its class, when the class defines
  one; otherwise its attribute \<open>name\<close>, when the attribute is set and true, whether the
  class or a \<open>name\<close> line of the text set it; otherwise the name of its class. A page that
  the constructor of \<open>src/render_engine/page.py\<close> builds from attributes none of which is
  named \<open>title\<close> or \<open>_title\<close> has as title the \<open>_title\<close> of its class, when the class defines
  one, and otherwise the name of its class.
\<close>

theorem title_default:
  "(legacy_init c fs content_path content no_index = Inr p \<longrightarrow>
    legacy_source \<lparr>cls = c, dict = [''no_index'' \<mapsto> PyBool no_index]\<rparr> fs content_path content =
      Inr text \<longrightarrow>
    parse_content text = Inr (attrs, body) \<longrightarrow>
    ''title'' \<notin> legacy_attr_name ` set attrs \<longrightarrow>
      getattr p ''title'' =
        Some (case class_attrs c ''title'' of
                Some t \<Rightarrow> t
              | None \<Rightarrow> legacy_title_default p)) \<and>
   (page_init P slugify c' content' content_path' = Inr p' \<longrightarrow>
    page_source P \<lparr>cls = c', dict = Map.empty\<rparr> content' content_path' = Inr src \<longrightarrow>
    (\<forall>attrs body. parser_parse_content P src = Inr (attrs, body) \<longrightarrow>
       ''title'' \<notin> attr_name ` set attrs \<and> ''_title'' \<notin> attr_name ` set attrs) \<longrightarrow>
      title p' = (case class_attrs c' ''_title'' of Some t \<Rightarrow> t | None \<Rightarrow> Str (class_name c')))"
  using legacy_title [of c fs content_path content no_index p "text" attrs body]
    page_title [of P slugify c' content' content_path' p' src]
  by blast

text \<open>A subclass \<open>Post\<close> of the first \<open>Page\<close> with \<open>name = "My Posts"\<close>, on a text without a
  title; and the second \<open>Page\<close> on the attributes of the example parser.\<close>

theorem title_default_witness:
  "(\<exists>p. legacy_init \<lparr>class_name = ''Post'',
                      class_attrs = (class_attrs legacy_Page)(''name'' \<mapsto> Str ''My Posts'')\<rparr>
            Map.empty None ''tags: a\<newline>\<newline>Body'' False = Inr p \<and>
         parse_content ''tags: a\<newline>\<newline>Body'' = Inr ([''tags: a''], ''Body'') \<and>
         ''title'' \<notin> legacy_attr_name ` set [''tags: a''] \<and>
         getattr p ''title'' = Some (legacy_title_default p) \<and>
         getattr p ''title'' = Some (Str ''My Posts'')) \<and>
   (\<exists>p'. page_init example_parser example_slugify Page (Str ''text'') PyNone = Inr p' \<and>
          title p' = Str ''Page'')"
proof -
  let ?c = "\<lparr>class_name = ''Post'',
             class_attrs = (class_attrs legacy_Page)(''name'' \<mapsto> Str ''My Posts'')\<rparr>"
  let ?t = "''tags: a\<newline>\<newline>Body''"
  obtain p where p: "legacy_init ?c Map.empty None ?t False = Inr p"
    by (simp add: legacy_eval)
  have e: "map_sum id (\<lambda>p. getattr p ''title'') (legacy_init ?c Map.empty None ?t False) =
             Inr (Some (Str ''My Posts''))"
    by (simp add: legacy_eval)
  have s: "legacy_source \<lparr>cls = ?c, dict = [''no_index'' \<mapsto> PyBool False]\<rparr> Map.empty None ?t = Inr ?t"
    by (simp add: legacy_eval)
  have pc: "parse_content ?t = Inr ([''tags: a''], ''Body'')"
    by (simp add: legacy_eval)
  have n: "''title'' \<notin> legacy_attr_name ` set [''tags: a'']"
    by (simp add: legacy_eval)
  have ct: "class_attrs legacy_Page ''title'' = None"
    by (simp add: legacy_Page_def)
  obtain p' where p': "page_init example_parser example_slugify Page (Str ''text'') PyNone = Inr p'"
    by (simp add: page_eval)
  have s': "page_source example_parser \<lparr>cls = Page, dict = Map.empty\<rparr> (Str ''text'') PyNone =
              Inr (Str ''text'')"
    by (simp add: page_eval)
  have n': "\<forall>attrs body. parser_parse_content example_parser (Str ''text'') = Inr (attrs, body) \<longrightarrow>
              ''title'' \<notin> attr_name ` set attrs \<and> ''_title'' \<notin> attr_name ` set attrs"
    by (auto simp: page_eval)
  have ct': "class_attrs Page ''_title'' = None" "class_name Page = ''Page''"
    by (simp_all add: Page_def)
  from title_default [of ?c Map.empty None ?t False p ?t "[''tags: a'']" "''Body''"
      example_parser example_slugify Page "Str ''text''" PyNone p' "Str ''text''"]
    p s pc n p' s' n'
  have "getattr p ''title'' = Some (legacy_title_default p)" and "title p' = Str ''Page''"
    by (simp_all add: ct ct')
  moreover from e p have "getattr p ''title'' = Some (Str ''My Posts'')"
    by simp
  ultimately show ?thesis
    using p pc n p' by blast
qed

end
